theory Spec2Isabelle
  imports Main
begin

section \<open>Python values and exceptions\<close>

text \<open>
  The exceptions the modelled code can raise. A raise is the \<open>Inl\<close> branch of a result
  of type \<open>error + 'a\<close>.
\<close>

datatype error =
    AttributeError
  | TypeError
  | ValueError
  | AssertionError string

text \<open>
  What a precondition's \<open>fits\<close> returns: \<open>x and y\<close> returns \<open>x\<close> itself when \<open>x\<close> is falsy,
  so a \<open>fits\<close> written \<open>last_call and ...\<close> returns \<open>None\<close>, not \<open>False\<close>, when there is no
  last call. Callers only test the truth value.
\<close>

datatype pyval = PyNone | PyBool bool

fun truthy :: "pyval \<Rightarrow> bool" where
  "truthy PyNone = False"
| "truthy (PyBool b) = b"

section \<open>Strains and calls\<close>

text \<open>
  Modelled from the spec: \<open>core.suit\<close> is not among the sources. The strains in suit-rank
  order, notrump highest; \<open>SUITS\<close> are the four suits.
\<close>

datatype strain_t = Clubs | Diamonds | Hearts | Spades | NoTrump

fun strain_index :: "strain_t \<Rightarrow> nat" where
  "strain_index Clubs = 0"
| "strain_index Diamonds = 1"
| "strain_index Hearts = 2"
| "strain_index Spades = 3"
| "strain_index NoTrump = 4"

definition SUITS :: "strain_t list" where
  "SUITS = [Clubs, Diamonds, Hearts, Spades]"

text \<open>
  Modelled from the spec: \<open>core.call.Call\<close> is not among the sources. A call is Pass,
  Double, Redouble or a contract bid of level and strain; it exposes \<open>strain\<close> and \<open>level\<close>
  (\<open>None\<close> unless the call is a contract), the predicates \<open>is_pass\<close>, \<open>is_double\<close>,
  \<open>is_redouble\<close>, \<open>is_contract\<close>, its canonical short name and parsing from that name.
\<close>

datatype call = Pass | Double | Redouble | Bid int strain_t

fun is_pass :: "call \<Rightarrow> bool" where
  "is_pass Pass = True"
| "is_pass _ = False"

fun is_double :: "call \<Rightarrow> bool" where
  "is_double Double = True"
| "is_double _ = False"

fun is_redouble :: "call \<Rightarrow> bool" where
  "is_redouble Redouble = True"
| "is_redouble _ = False"

fun is_contract :: "call \<Rightarrow> bool" where
  "is_contract (Bid l s) = True"
| "is_contract _ = False"

fun strain :: "call \<Rightarrow> strain_t option" where
  "strain (Bid l s) = Some s"
| "strain _ = None"

fun level :: "call \<Rightarrow> int option" where
  "level (Bid l s) = Some l"
| "level _ = None"

fun strain_char :: "strain_t \<Rightarrow> char" where
  "strain_char Clubs = CHR ''C''"
| "strain_char Diamonds = CHR ''D''"
| "strain_char Hearts = CHR ''H''"
| "strain_char Spades = CHR ''S''"
| "strain_char NoTrump = CHR ''N''"


definition level_char :: "int \<Rightarrow> char" where
  "level_char l =
     (if l = 1 then CHR ''1'' else if l = 2 then CHR ''2'' else if l = 3 then CHR ''3''
      else if l = 4 then CHR ''4'' else if l = 5 then CHR ''5'' else if l = 6 then CHR ''6''
      else CHR ''7'')"


fun name :: "call \<Rightarrow> string" where
  "name Pass = ''P''"
| "name Double = ''X''"
| "name Redouble = ''XX''"
| "name (Bid l s) = [level_char l, strain_char s]"


section \<open>Positions, annotations and the auction history\<close>

datatype position = Me | Partner | LHO | RHO

datatype annotation =
    Opening
  | NoTrumpSystemsOn
  | Artificial
  | Stayman
  | Gerber
  | Transfer
  | Jacoby2NT
  | NegativeDouble

text \<open>
  Modelled from the spec: the history classes are not among the sources. A position's view
  exposes its last call (\<open>None\<close> when it has made none), the annotations of that call, a
  minimum point estimate, a minimum length estimate per strain and whether the position
  could hold more than a given number of points. The estimates are given, not derived.
\<close>

record position_view =
  last_call :: "call option"
  annotations_for_last_call :: "annotation list"
  min_points :: int
  min_length :: "strain_t \<Rightarrow> int"
  could_have_more_points_than :: "int \<Rightarrow> bool"

record history =
  call_history :: "call list"
  annotations :: "annotation list"
  annotations_for_position :: "position \<Rightarrow> annotation list"
  view_for :: "position \<Rightarrow> position_view"
  is_unbid_suit :: "strain_t \<Rightarrow> bool"

definition me :: "history \<Rightarrow> position_view" where
  "me h = view_for h Me"

definition partner :: "history \<Rightarrow> position_view" where
  "partner h = view_for h Partner"

definition rho :: "history \<Rightarrow> position_view" where
  "rho h = view_for h RHO"

text \<open>
  Modelled from the spec: the last established contract of a call history is its most
  recent contract call, \<open>None\<close> when no contract has been bid.
\<close>

fun last_contract :: "call list \<Rightarrow> call option" where
  "last_contract [] = None"
| "last_contract (c # cs) =
     (case last_contract cs of
        Some d \<Rightarrow> Some d
      | None \<Rightarrow> (if is_contract c then Some c else None))"

section \<open>Preconditions\<close>

text \<open>
  One constructor per concrete precondition class of \<open>preconditions.py\<close>, with the
  arguments of its \<open>__init__\<close>. \<open>LastBidHasStrain\<close> takes one strain or a list of them.
\<close>

datatype strain_arg = OneStrain strain_t | StrainList "strain_t list"

datatype precondition =
    InvertedPrecondition precondition
  | NoOpening
  | Opened position
  | ForcedToBid
  | NoCompetition
  | LastBidHasAnnotation position annotation
  | LastBidHasStrain position strain_arg
  | LastBidWasSuit position
  | LastBidHasLevel position int
  | LastBidWas position string
  | RaiseOfPartnersLastSuit
  | SuitLowerThanMyLastSuit
  | RebidSameSuit
  | PartnerHasAtLeastLengthInSuit int
  | UnbidSuit
  | Strain strain_t
  | MaxLevel int
  | MinimumCombinedPointsPrecondition int
  | JumpFromLastContract "int option"
  | JumpFromMyLastBid "int option"
  | JumpFromPartnerLastBid "int option"
  | NotJumpFromLastContract
  | NotJumpFromMyLastBid
  | NotJumpFromPartnerLastBid

text \<open>
  \<open>x in suit.SUITS\<close> for a strain attribute that may be \<open>None\<close>. Where \<open>MaxLevel\<close>
  compares a level with \<open><=\<close>, a level of \<open>None\<close> counts as below every number, as Python 2
  orders it; no contract call has such a level. \<open>MaxLevel\<close> reads \<open>history.last_contract\<close>,
  taken to be the call history's last contract.
\<close>

definition in_SUITS :: "strain_t option \<Rightarrow> bool" where
  "in_SUITS s = (case s of None \<Rightarrow> False | Some t \<Rightarrow> t \<in> set SUITS)"

subsection \<open>ForcedToBid\<close>

definition rho_bid :: "history \<Rightarrow> pyval" where
  "rho_bid h =
     (case last_call (rho h) of
        None \<Rightarrow> PyNone
      | Some lc \<Rightarrow> PyBool (\<not> is_pass lc))"

definition partner_last_bid_was_pass :: "history \<Rightarrow> pyval" where
  "partner_last_bid_was_pass h =
     (case last_call (partner h) of
        None \<Rightarrow> PyNone
      | Some lc \<Rightarrow> PyBool (is_pass lc))"

definition partner_last_call_was_artificial :: "history \<Rightarrow> bool" where
  "partner_last_call_was_artificial h =
     (Artificial \<in> set (annotations_for_last_call (partner h)))"

definition is_forced_to_bid :: "history \<Rightarrow> bool" where
  "is_forced_to_bid h =
     (if truthy (partner_last_bid_was_pass h) then False
      else if truthy (rho_bid h) then False
      else if partner_last_call_was_artificial h then True
      else could_have_more_points_than (partner h) 25)"

subsection \<open>The Jump family\<close>

text \<open>
  \<open>Jump._jump_size(last_call, call)\<close>. \<open>last_call\<close> is a call object; \<open>call\<close> is \<open>None\<close> when a
  Double or Redouble was rewritten and the call history has no contract, and then reading
  its strain raises. The level difference of a call without a level raises as well.
\<close>

definition jump_size :: "call \<Rightarrow> call option \<Rightarrow> error + int" where
  "jump_size lc c =
     (case c of
        None \<Rightarrow> Inl AttributeError
      | Some c' \<Rightarrow>
          (case (level c', level lc, strain c', strain lc) of
             (Some cl, Some ll, Some cs, Some ls) \<Rightarrow>
               (if strain_index cs \<le> strain_index ls then Inr (cl - ll - 1)
                else Inr (cl - ll))
           | _ \<Rightarrow> Inl TypeError))"

text \<open>
  \<open>Jump.fits\<close>, with the subclass's \<open>_last_call\<close> and the \<open>exact_size\<close> of the instance as
  arguments.
\<close>

definition Jump_fits ::
  "(history \<Rightarrow> call option) \<Rightarrow> int option \<Rightarrow> history \<Rightarrow> call \<Rightarrow> error + pyval" where
  "Jump_fits last_call_of exact_size h c =
     (if is_pass c then Inr (PyBool False)
      else
        (let c' = (if is_double c \<or> is_redouble c then last_contract (call_history h)
                   else Some c)
         in case last_call_of h of
              None \<Rightarrow> Inr (PyBool False)
            | Some lc \<Rightarrow>
                (if \<not> is_contract lc then Inr (PyBool False)
                 else
                   (case jump_size lc c' of
                      Inl e \<Rightarrow> Inl e
                    | Inr js \<Rightarrow>
                        (case exact_size of
                           None \<Rightarrow> Inr (PyBool (js \<noteq> 0))
                         | Some n \<Rightarrow> Inr (PyBool (n = js)))))))"

definition JumpFromLastContract_last_call :: "history \<Rightarrow> call option" where
  "JumpFromLastContract_last_call h = last_contract (call_history h)"

definition JumpFromMyLastBid_last_call :: "history \<Rightarrow> call option" where
  "JumpFromMyLastBid_last_call h = last_call (me h)"

definition JumpFromPartnerLastBid_last_call :: "history \<Rightarrow> call option" where
  "JumpFromPartnerLastBid_last_call h = last_call (partner h)"

subsection \<open>fits\<close>

fun fits :: "precondition \<Rightarrow> history \<Rightarrow> call \<Rightarrow> error + pyval" where
  "fits (InvertedPrecondition p) h c =
     (case fits p h c of
        Inl e \<Rightarrow> Inl e
      | Inr v \<Rightarrow> Inr (PyBool (\<not> truthy v)))"
| "fits NoOpening h c = Inr (PyBool (Opening \<notin> set (annotations h)))"
| "fits (Opened pos) h c = Inr (PyBool (Opening \<in> set (annotations_for_position h pos)))"
| "fits ForcedToBid h c = Inr (PyBool (is_forced_to_bid h))"
| "fits NoCompetition h c =
     (case last_call (rho h) of
        None \<Rightarrow> Inr PyNone
      | Some lc \<Rightarrow> Inr (PyBool (\<not> is_pass lc)))"
| "fits (LastBidHasAnnotation pos a) h c =
     Inr (PyBool (a \<in> set (annotations_for_last_call (view_for h pos))))"
| "fits (LastBidHasStrain pos sa) h c =
     (case last_call (view_for h pos) of
        None \<Rightarrow> Inr PyNone
      | Some lc \<Rightarrow>
          (case sa of
             StrainList ss \<Rightarrow>
               Inr (PyBool (case strain lc of None \<Rightarrow> False | Some t \<Rightarrow> t \<in> set ss))
           | OneStrain s \<Rightarrow> Inr (PyBool (strain lc = Some s))))"
| "fits (LastBidWasSuit pos) h c =
     (case last_call (view_for h pos) of
        None \<Rightarrow> Inr PyNone
      | Some lc \<Rightarrow> Inr (PyBool (in_SUITS (strain lc))))"
| "fits (LastBidHasLevel pos n) h c =
     (case last_call (view_for h pos) of
        None \<Rightarrow> Inr PyNone
      | Some lc \<Rightarrow> Inr (PyBool (level lc = Some n)))"
| "fits (LastBidWas pos nm) h c =
     (case last_call (view_for h pos) of
        None \<Rightarrow> Inr PyNone
      | Some lc \<Rightarrow> Inr (PyBool (name lc = nm)))"
| "fits RaiseOfPartnersLastSuit h c =
     (case last_call (partner h) of
        None \<Rightarrow> Inr (PyBool False)
      | Some plc \<Rightarrow>
          (case strain plc of
             None \<Rightarrow> Inr (PyBool False)
           | Some ps \<Rightarrow>
               (if ps \<notin> set SUITS then Inr (PyBool False)
                else Inr (PyBool (strain c = Some ps \<and> min_length (partner h) ps \<ge> 3)))))"
| "fits SuitLowerThanMyLastSuit h c =
     (if \<not> in_SUITS (strain c) then Inr (PyBool False)
      else
        (case last_call (me h) of
           None \<Rightarrow> Inl AttributeError
         | Some lc \<Rightarrow>
             (if \<not> in_SUITS (strain lc) then Inr (PyBool False)
              else
                (case (strain c, strain lc) of
                   (Some cs, Some ls) \<Rightarrow> Inr (PyBool (strain_index cs < strain_index ls))
                 | _ \<Rightarrow> Inr (PyBool False)))))"
| "fits RebidSameSuit h c =
     (if \<not> in_SUITS (strain c) then Inr (PyBool False)
      else
        (case last_call (me h) of
           None \<Rightarrow> Inr PyNone
         | Some lc \<Rightarrow> Inr (PyBool (strain c = strain lc))))"
| "fits (PartnerHasAtLeastLengthInSuit n) h c =
     (case strain c of
        None \<Rightarrow> Inr (PyBool False)
      | Some cs \<Rightarrow>
          (if cs \<notin> set SUITS then Inr (PyBool False)
           else Inr (PyBool (min_length (partner h) cs \<ge> n))))"
| "fits UnbidSuit h c =
     (case strain c of
        None \<Rightarrow> Inr (PyBool False)
      | Some cs \<Rightarrow>
          (if cs \<notin> set SUITS then Inr (PyBool False)
           else Inr (PyBool (is_unbid_suit h cs))))"
| "fits (Strain s) h c = Inr (PyBool (strain c = Some s))"
| "fits (MaxLevel n) h c =
     (if is_double c then
        (case last_contract (call_history h) of
           None \<Rightarrow> Inl AttributeError
         | Some lc \<Rightarrow>
             (case level lc of
                None \<Rightarrow> Inr (PyBool True)
              | Some l \<Rightarrow> Inr (PyBool (l \<le> n))))
      else if \<not> is_contract c then Inr (PyBool False)
      else
        (case level c of
           None \<Rightarrow> Inr (PyBool True)
         | Some l \<Rightarrow> Inr (PyBool (l \<le> n))))"
| "fits (MinimumCombinedPointsPrecondition n) h c =
     Inr (PyBool (min_points (partner h) + min_points (me h) \<ge> n))"
| "fits (JumpFromLastContract ex) h c = Jump_fits JumpFromLastContract_last_call ex h c"
| "fits (JumpFromMyLastBid ex) h c = Jump_fits JumpFromMyLastBid_last_call ex h c"
| "fits (JumpFromPartnerLastBid ex) h c = Jump_fits JumpFromPartnerLastBid_last_call ex h c"
| "fits NotJumpFromLastContract h c =
     Jump_fits JumpFromLastContract_last_call (Some 0) h c"
| "fits NotJumpFromMyLastBid h c = Jump_fits JumpFromMyLastBid_last_call (Some 0) h c"
| "fits NotJumpFromPartnerLastBid h c =
     Jump_fits JumpFromPartnerLastBid_last_call (Some 0) h c"

section \<open>Rules\<close>

subsection \<open>Priorities, expressions and constraint data\<close>

text \<open>
  Modelled from the spec: \<open>third_party.enum\<close> is not among the sources. A priority is a
  member of a named enumeration: the enumeration's name and the member's index. Every
  priority is truthy; only \<open>None\<close> is a missing priority.
\<close>

datatype priority = EnumValue string nat

text \<open>
  The solver's expressions are opaque to the rule engine: it only builds conjunctions of
  them and hands them to the solver. \<open>NO_CONSTRAINTS\<close> is the trivially true expression.
\<close>

datatype expr =
    z3_BoolVal bool
  | z3_Atom string
  | z3_And "expr list"
  | z3_Or "expr list"

definition NO_CONSTRAINTS :: expr where
  "NO_CONSTRAINTS = z3_BoolVal True"

text \<open>
  The forms constraint data takes in a rule declaration: \<open>None\<close>, a solver expression, a
  \<open>Constraint\<close> object (its \<open>expr(history, call)\<close> method is the argument), a list or tuple of
  constraint data, and the priority that ends a per-call pair \<open>(constraints, priority)\<close>.
\<close>

datatype constraint_data =
    NoneC
  | ExprRef expr
  | Constraint "history \<Rightarrow> call \<Rightarrow> expr"
  | Seq "constraint_data list"
  | EnumValueC priority

text \<open>
  Truth value of constraint data: \<open>None\<close> and the empty list or tuple are falsy. Expression
  objects, constraint objects and priorities define no truth value of their own and are
  truthy.
\<close>

fun truthy_constraints :: "constraint_data \<Rightarrow> bool" where
  "truthy_constraints NoneC = False"
| "truthy_constraints (Seq xs) = (xs \<noteq> [])"
| "truthy_constraints _ = True"

subsection \<open>The Rule class\<close>

text \<open>
  The class attributes the modelled methods read; \<open>rule_name\<close> is the class name.
  \<open>constraints\<close> is a dictionary, kept as the list of its items.
\<close>

record rule =
  rule_name :: string
  preconditions :: "precondition list"
  call_name :: "string option"
  call_names :: "string list option"
  constraints :: "(string \<times> constraint_data) list"
  shared_constraints :: constraint_data
  conditional_priorities :: "(expr \<times> priority) list"
  priority :: "priority option"

definition truthy_call_name :: "string option \<Rightarrow> bool" where
  "truthy_call_name n = (case n of None \<Rightarrow> False | Some s \<Rightarrow> s \<noteq> [])"


definition truthy_priority :: "priority option \<Rightarrow> bool" where
  "truthy_priority p = (p \<noteq> None)"

text \<open>\<open>Rule.__init__\<close>: three assertions, the first with a message.\<close>

definition Rule_init :: "rule \<Rightarrow> error + unit" where
  "Rule_init r =
     (if \<not> (truthy_priority (priority r) \<or> constraints r \<noteq> [])
      then Inl (AssertionError (rule_name r @ '' is missing priority''))
      else if \<not> (conditional_priorities r = [] \<or> constraints r = [])
      then Inl (AssertionError [])
      else if \<not> (conditional_priorities r = [] \<or> truthy_call_name (call_name r))
      then Inl (AssertionError [])
      else Inr ())"







subsection \<open>Constraint expressions\<close>

text \<open>
  \<open>Rule._exprs_from_constraints\<close>. Iterating over a priority, which is not iterable, raises.
\<close>

fun exprs_from_constraints :: "constraint_data \<Rightarrow> history \<Rightarrow> call \<Rightarrow> error + expr list"
  and exprs_from_constraints_list ::
    "constraint_data list \<Rightarrow> history \<Rightarrow> call \<Rightarrow> error + expr list" where
  "exprs_from_constraints NoneC h c = Inr [NO_CONSTRAINTS]"
| "exprs_from_constraints (Constraint f) h c = Inr [f h c]"
| "exprs_from_constraints (ExprRef e) h c = Inr [e]"
| "exprs_from_constraints (Seq xs) h c =
     (if xs = [] then Inr [NO_CONSTRAINTS] else exprs_from_constraints_list xs h c)"
| "exprs_from_constraints (EnumValueC p) h c = Inl TypeError"
| "exprs_from_constraints_list [] h c = Inr []"
| "exprs_from_constraints_list (x # xs) h c =
     (case exprs_from_constraints x h c of
        Inl e \<Rightarrow> Inl e
      | Inr es \<Rightarrow>
          (case exprs_from_constraints_list xs h c of
             Inl e \<Rightarrow> Inl e
           | Inr fs \<Rightarrow> Inr (es @ fs)))"

text \<open>
  \<open>Rule._per_call_constraints_and_priority\<close>. The result is \<open>None\<close> when the function ends
  without a \<open>return\<close>: the entry is a list or tuple whose last element is not a priority,
  so the \<open>if\<close> inside \<open>try\<close> is false and nothing raises. \<open>list(x)\<close> raises \<open>TypeError\<close> for an
  entry that is not a list or tuple, which the \<open>except\<close> branch answers.
\<close>

definition per_call_constraints_and_priority ::
  "rule \<Rightarrow> call \<Rightarrow> error + (constraint_data \<times> priority option) option" where
  "per_call_constraints_and_priority r c =
     (case map_of (constraints r) (name c) of
        None \<Rightarrow> Inr (Some (NoneC, priority r))
      | Some ct \<Rightarrow>
          (if \<not> truthy_constraints ct then Inr (Some (NoneC, priority r))
           else
             (case ct of
                Seq xs \<Rightarrow>
                  (case rev xs of
                     EnumValueC p # _ \<Rightarrow>
                       (case xs of
                          [x, _] \<Rightarrow> Inr (Some (x, Some p))
                        | _ \<Rightarrow> Inl (AssertionError []))
                   | _ \<Rightarrow> Inr None)
              | _ \<Rightarrow> Inr (Some (ct, priority r)))))"

text \<open>
  Unpacking \<open>a, b = self._per_call_constraints_and_priority(call)\<close>: \<open>None\<close> does not unpack.
\<close>

definition unpack_per_call ::
  "rule \<Rightarrow> call \<Rightarrow> error + (constraint_data \<times> priority option)" where
  "unpack_per_call r c =
     (case per_call_constraints_and_priority r c of
        Inl e \<Rightarrow> Inl e
      | Inr None \<Rightarrow> Inl TypeError
      | Inr (Some pr) \<Rightarrow> Inr pr)"

definition constraints_expr_for_call :: "rule \<Rightarrow> history \<Rightarrow> call \<Rightarrow> error + expr" where
  "constraints_expr_for_call r h c =
     (case unpack_per_call r c of
        Inl e \<Rightarrow> Inl e
      | Inr (per_call_constraints, _) \<Rightarrow>
          (case (if truthy_constraints per_call_constraints
                 then exprs_from_constraints per_call_constraints h c
                 else Inr []) of
             Inl e \<Rightarrow> Inl e
           | Inr es \<Rightarrow>
               (case exprs_from_constraints (shared_constraints r) h c of
                  Inl e \<Rightarrow> Inl e
                | Inr fs \<Rightarrow> Inr (z3_And (es @ fs)))))"

subsection \<open>Priorities\<close>

text \<open>
  The solver is an oracle: \<open>is_possible(solver, expr)\<close> answers whether the expression is
  satisfiable with what the solver knows of the hand. The oracle is an argument, and each
  query is counted in a counter that the functions pass along.
\<close>

definition is_possible :: "('s \<Rightarrow> expr \<Rightarrow> bool) \<Rightarrow> 's \<Rightarrow> expr \<Rightarrow> nat \<Rightarrow> bool \<times> nat" where
  "is_possible is_sat solver e n = (is_sat solver e, Suc n)"

text \<open>The loop over \<open>conditional_priorities\<close> in \<open>priority_for_call_and_hand\<close>.\<close>

fun first_possible ::
  "('s \<Rightarrow> expr \<Rightarrow> bool) \<Rightarrow> 's \<Rightarrow> (expr \<times> priority) list \<Rightarrow> nat \<Rightarrow> priority option \<times> nat" where
  "first_possible is_sat solver [] n = (None, n)"
| "first_possible is_sat solver ((condition, p) # rest) n =
     (case is_possible is_sat solver condition n of
        (True, n') \<Rightarrow> (Some p, n')
      | (False, n') \<Rightarrow> first_possible is_sat solver rest n')"

text \<open>
  The body of \<open>Rule.priority_for_call_and_hand\<close>, without the \<open>memoized\<close> decorator. The
  result \<open>None\<close> is "no priority". The hand is only part of the cache key.
\<close>

definition priority_for_call_and_hand ::
  "('s \<Rightarrow> expr \<Rightarrow> bool) \<Rightarrow> rule \<Rightarrow> 's \<Rightarrow> history \<Rightarrow> call \<Rightarrow> 'hand \<Rightarrow> nat
     \<Rightarrow> (error + priority option) \<times> nat" where
  "priority_for_call_and_hand is_sat r solver h c hand n =
     (case constraints_expr_for_call r h c of
        Inl e \<Rightarrow> (Inl e, n)
      | Inr ex \<Rightarrow>
          (case is_possible is_sat solver ex n of
             (False, n1) \<Rightarrow> (Inr None, n1)
           | (True, n1) \<Rightarrow>
               (case first_possible is_sat solver (conditional_priorities r) n1 of
                  (Some p, n2) \<Rightarrow> (Inr (Some p), n2)
                | (None, n2) \<Rightarrow>
                    (case unpack_per_call r c of
                       Inl e \<Rightarrow> (Inl e, n2)
                     | Inr (_, Some p) \<Rightarrow> (Inr (Some p), n2)
                     | Inr (_, None) \<Rightarrow> (Inr (priority r), n2)))))"

text \<open>
  \<open>Rule.possible_priorities_and_conditions_for_call\<close>, a generator: the pairs it yields, or
  the exception that ends it.
\<close>

definition possible_priorities_and_conditions_for_call ::
  "rule \<Rightarrow> call \<Rightarrow> error + (priority \<times> expr) list" where
  "possible_priorities_and_conditions_for_call r c =
     (case unpack_per_call r c of
        Inl e \<Rightarrow> Inl e
      | Inr (_, None) \<Rightarrow> Inl (AssertionError [])
      | Inr (_, Some p) \<Rightarrow>
          Inr (map (\<lambda>(condition, q). (q, condition)) (conditional_priorities r)
               @ [(p, NO_CONSTRAINTS)]))"

section \<open>Specification-level definitions\<close>

subsection \<open>The Jump family as the specification describes it\<close>

text \<open>
  Which reference call each Jump precondition compares against (the last established
  contract, the bidder's own last call, partner's last call) and the exact size it requires
  (zero for the NotJump variants, the declared one otherwise).
\<close>

fun jump_reference :: "precondition \<Rightarrow> (history \<Rightarrow> call option) option" where
  "jump_reference (JumpFromLastContract ex) = Some (\<lambda>h. last_contract (call_history h))"
| "jump_reference NotJumpFromLastContract = Some (\<lambda>h. last_contract (call_history h))"
| "jump_reference (JumpFromMyLastBid ex) = Some (\<lambda>h. last_call (me h))"
| "jump_reference NotJumpFromMyLastBid = Some (\<lambda>h. last_call (me h))"
| "jump_reference (JumpFromPartnerLastBid ex) = Some (\<lambda>h. last_call (partner h))"
| "jump_reference NotJumpFromPartnerLastBid = Some (\<lambda>h. last_call (partner h))"
| "jump_reference _ = None"

fun jump_exact_size :: "precondition \<Rightarrow> int option" where
  "jump_exact_size (JumpFromLastContract ex) = ex"
| "jump_exact_size (JumpFromMyLastBid ex) = ex"
| "jump_exact_size (JumpFromPartnerLastBid ex) = ex"
| "jump_exact_size NotJumpFromLastContract = Some 0"
| "jump_exact_size NotJumpFromMyLastBid = Some 0"
| "jump_exact_size NotJumpFromPartnerLastBid = Some 0"
| "jump_exact_size _ = None"

text \<open>
  The candidate after rewriting: a Double or Redouble stands for the last established
  contract. The jump size and what counts as a jump, in the specification's words.
\<close>

definition spec_candidate :: "history \<Rightarrow> call \<Rightarrow> call option" where
  "spec_candidate h c =
     (if c = Double \<or> c = Redouble then last_contract (call_history h) else Some c)"

definition spec_jump_size :: "int \<Rightarrow> strain_t \<Rightarrow> int \<Rightarrow> strain_t \<Rightarrow> int" where
  "spec_jump_size cl cs rl rs =
     (if strain_index cs \<le> strain_index rs then cl - rl - 1 else cl - rl)"

definition spec_is_jump :: "int option \<Rightarrow> int \<Rightarrow> bool" where
  "spec_is_jump ex js = (case ex of None \<Rightarrow> js \<noteq> 0 | Some n \<Rightarrow> js = n)"

subsection \<open>Priority resolution as the specification describes it\<close>

text \<open>
  The per-call override priority, when the constraints mapping declares the call's entry
  as a pair of constraint data and priority.
\<close>

definition declared_override :: "rule \<Rightarrow> call \<Rightarrow> priority option" where
  "declared_override r c =
     (case map_of (constraints r) (name c) of
        Some (Seq [x, EnumValueC p]) \<Rightarrow> Some p
      | _ \<Rightarrow> None)"

text \<open>
  No priority when the full constraint expression \<open>e\<close> is unsatisfiable; otherwise the
  priority of the first satisfiable condition in declared order; otherwise the per-call
  override when declared, else the rule's default priority.
\<close>

definition spec_priority ::
  "('s \<Rightarrow> expr \<Rightarrow> bool) \<Rightarrow> 's \<Rightarrow> rule \<Rightarrow> call \<Rightarrow> expr \<Rightarrow> priority option" where
  "spec_priority is_sat solver r c e =
     (if \<not> is_sat solver e then None
      else
        (case find (\<lambda>(condition, p). is_sat solver condition) (conditional_priorities r) of
           Some (condition, p) \<Rightarrow> Some p
         | None \<Rightarrow>
             (case declared_override r c of
                Some p \<Rightarrow> Some p
              | None \<Rightarrow> priority r)))"

subsection \<open>Candidate calls and satisfied preconditions\<close>



subsection \<open>Flattened constraint data\<close>

text \<open>
  Constraint data with no priority inside it, and its expressions in order: a constraint
  object contributes its expression for the history and call, an absent constraint the
  trivially true expression.
\<close>

fun no_priority_inside :: "constraint_data \<Rightarrow> bool" where
  "no_priority_inside (EnumValueC p) = False"
| "no_priority_inside (Seq xs) = list_all no_priority_inside xs"
| "no_priority_inside _ = True"

fun flatten_constraints :: "constraint_data \<Rightarrow> history \<Rightarrow> call \<Rightarrow> expr list" where
  "flatten_constraints NoneC h c = [NO_CONSTRAINTS]"
| "flatten_constraints (ExprRef e) h c = [e]"
| "flatten_constraints (Constraint f) h c = [f h c]"
| "flatten_constraints (Seq xs) h c =
     (if xs = [] then [NO_CONSTRAINTS] else concat (map (\<lambda>x. flatten_constraints x h c) xs))"
| "flatten_constraints (EnumValueC p) h c = []"

subsection \<open>Memoization\<close>







section \<open>Concrete auctions and rules\<close>

text \<open>
  The empty auction: nobody has called. An auction in which RHO opened one club, and one in
  which partner opened one club and RHO passed.
\<close>

definition no_call_view :: position_view where
  "no_call_view =
     \<lparr>last_call = None, annotations_for_last_call = [], min_points = 0,
      min_length = (\<lambda>s. 0), could_have_more_points_than = (\<lambda>n. True)\<rparr>"

definition empty_auction :: history where
  "empty_auction =
     \<lparr>call_history = [], annotations = [], annotations_for_position = (\<lambda>p. []),
      view_for = (\<lambda>p. no_call_view), is_unbid_suit = (\<lambda>s. True)\<rparr>"

definition rho_opened_one_club :: history where
  "rho_opened_one_club =
     \<lparr>call_history = [Bid 1 Clubs],
      annotations = [Opening],
      annotations_for_position = (\<lambda>p. if p = RHO then [Opening] else []),
      view_for =
        (\<lambda>p. if p = RHO then
               \<lparr>last_call = Some (Bid 1 Clubs), annotations_for_last_call = [Opening],
                min_points = 12, min_length = (\<lambda>s. if s = Clubs then 3 else 0),
                could_have_more_points_than = (\<lambda>n. n < 21)\<rparr>
             else no_call_view),
      is_unbid_suit = (\<lambda>s. s \<noteq> Clubs)\<rparr>"

definition partner_opened_one_club :: history where
  "partner_opened_one_club =
     \<lparr>call_history = [Bid 1 Clubs, Pass],
      annotations = [Opening],
      annotations_for_position = (\<lambda>p. if p = Partner then [Opening] else []),
      view_for =
        (\<lambda>p. if p = Partner then
               \<lparr>last_call = Some (Bid 1 Clubs), annotations_for_last_call = [Opening],
                min_points = 12, min_length = (\<lambda>s. if s = Clubs then 3 else 0),
                could_have_more_points_than = (\<lambda>n. n < 21)\<rparr>
             else if p = RHO then
               \<lparr>last_call = Some Pass, annotations_for_last_call = [],
                min_points = 0, min_length = (\<lambda>s. 0),
                could_have_more_points_than = (\<lambda>n. True)\<rparr>
             else
               \<lparr>last_call = None, annotations_for_last_call = [],
                min_points = 0, min_length = (\<lambda>s. 0),
                could_have_more_points_than = (\<lambda>n. True)\<rparr>),
      is_unbid_suit = (\<lambda>s. s \<noteq> Clubs)\<rparr>"



text \<open>
  \<open>OneClubOpening\<close> and \<open>OneHeartResponse\<close> of the rule catalog, with the solver's atomic
  expressions named by their source text. The priorities are members of
  \<open>opening_priorities\<close> and \<open>response_priorities\<close> by index.
\<close>

definition OneClubOpening :: rule where
  "OneClubOpening =
     \<lparr>rule_name = ''OneClubOpening'',
      preconditions = [NoOpening],
      call_name = Some ''1C'',
      call_names = None,
      constraints = [],
      shared_constraints =
        Seq [ExprRef (z3_Atom ''rule_of_twenty''), ExprRef (z3_Atom ''clubs >= 3'')],
      conditional_priorities =
        [(z3_Or [z3_Atom ''clubs > diamonds'',
                 z3_And [z3_Atom ''clubs == 3'', z3_Atom ''diamonds == 3'']],
          EnumValue ''opening_priorities'' 5)],
      priority = Some (EnumValue ''opening_priorities'' 7)\<rparr>"

definition OneHeartResponse :: rule where
  "OneHeartResponse =
     \<lparr>rule_name = ''OneHeartResponse'',
      preconditions = [LastBidHasAnnotation Partner Opening],
      call_name = Some ''1H'',
      call_names = None,
      constraints = [],
      shared_constraints =
        Seq [ExprRef (z3_Atom ''points >= 6''), ExprRef (z3_Atom ''hearts >= 4'')],
      conditional_priorities =
        [(z3_And [z3_Atom ''hearts >= 5'', z3_Atom ''hearts > spades''],
          EnumValue ''response_priorities'' 2),
         (z3_Atom ''hearts >= 5'', EnumValue ''response_priorities'' 4)],
      priority = Some (EnumValue ''response_priorities'' 6)\<rparr>"

text \<open>
  A rule with no default priority whose only per-call entry is a bare expression, and a
  rule whose per-call entry is a list of expressions.
\<close>

definition NoDefaultPriority :: rule where
  "NoDefaultPriority =
     \<lparr>rule_name = ''NoDefaultPriority'',
      preconditions = [],
      call_name = None,
      call_names = None,
      constraints = [(''2C'', ExprRef (z3_Atom ''clubs >= 4''))],
      shared_constraints = Seq [],
      conditional_priorities = [],
      priority = None\<rparr>"

definition PerCallList :: rule where
  "PerCallList =
     \<lparr>rule_name = ''PerCallList'',
      preconditions = [],
      call_name = None,
      call_names = None,
      constraints =
        [(''1H'', Seq [ExprRef (z3_Atom ''hearts >= 5''), ExprRef (z3_Atom ''points >= 6'')])],
      shared_constraints = Seq [],
      conditional_priorities = [],
      priority = Some (EnumValue ''response_priorities'' 4)\<rparr>"

section \<open>Properties of the preconditions\<close>

subsection \<open>The last contract\<close>

lemma last_contract_is_contract: "last_contract cs = Some d \<Longrightarrow> is_contract d"
  by (induction cs) (auto split: option.splits if_splits)

lemma last_contract_None_iff: "last_contract cs = None \<longleftrightarrow> (\<forall>d \<in> set cs. \<not> is_contract d)"
  by (induction cs) (auto split: option.splits)

lemma last_contract_exists:
  "(\<exists>d \<in> set cs. is_contract d) \<Longrightarrow> \<exists>d. last_contract cs = Some d"
  using last_contract_None_iff [of cs] by (cases "last_contract cs") auto

lemma is_contract_Bid: "is_contract d \<Longrightarrow> \<exists>l s. d = Bid l s"
  by (cases d) auto

subsection \<open>NoCompetition\<close>

text \<open>
  Claim C6. For every history and call, \<open>NoCompetition.fits(history, call)\<close> is true iff RHO's
  last call exists and is not Pass. The value returned is \<open>None\<close> when RHO has not called.
\<close>

theorem NoCompetition_fits_iff:
  "\<exists>v. fits NoCompetition h c = Inr v \<and>
        (truthy v \<longleftrightarrow> (\<exists>lc. last_call (rho h) = Some lc \<and> \<not> is_pass lc))"
  by (cases "last_call (rho h)") auto

theorem NoCompetition_fits_iff_witness:
  "fits NoCompetition rho_opened_one_club (Bid 1 Diamonds) = Inr (PyBool True) \<and>
   fits NoCompetition empty_auction (Bid 1 Diamonds) = Inr PyNone"
  using NoCompetition_fits_iff [of rho_opened_one_club "Bid 1 Diamonds"]
    NoCompetition_fits_iff [of empty_auction "Bid 1 Diamonds"]
  by (simp add: rho_opened_one_club_def empty_auction_def no_call_view_def rho_def)

subsection \<open>SuitLowerThanMyLastSuit\<close>

text \<open>
  Claim C4. \<open>fits\<close> is to return a boolean and never raise for a well-formed history and
  call. In the empty auction, with a suit bid as the candidate,
  \<open>SuitLowerThanMyLastSuit.fits\<close> reads the strain of the bidder's last call, which is
  \<open>None\<close>, and raises; \<open>RebidSameSuit\<close> tests the last call first and does not.
\<close>

theorem SuitLowerThanMyLastSuit_raises:
  "fits SuitLowerThanMyLastSuit empty_auction (Bid 1 Diamonds) = Inl AttributeError \<and>
   fits RebidSameSuit empty_auction (Bid 1 Diamonds) = Inr PyNone"
  by (simp add: empty_auction_def no_call_view_def me_def in_SUITS_def SUITS_def)

subsection \<open>The Jump family\<close>

lemma fits_jump_family:
  "jump_reference p = Some ref \<Longrightarrow> fits p h c = Jump_fits ref (jump_exact_size p) h c"
  by (cases p)
     (auto simp: JumpFromLastContract_last_call_def JumpFromMyLastBid_last_call_def
        JumpFromPartnerLastBid_last_call_def fun_eq_iff Jump_fits_def cong: option.case_cong)

lemma rewritten_candidate:
  "(if is_double c \<or> is_redouble c then last_contract (call_history h) else Some c)
     = spec_candidate h c"
  by (cases c) (simp_all add: spec_candidate_def)

lemma Jump_fits_pass: "is_pass c \<Longrightarrow> Jump_fits ref ex h c = Inr (PyBool False)"
  by (simp add: Jump_fits_def)

lemma Jump_fits_no_reference:
  "ref h = None \<or> (\<exists>r. ref h = Some r \<and> \<not> is_contract r) \<Longrightarrow>
   Jump_fits ref ex h c = Inr (PyBool False)"
  by (auto simp: Jump_fits_def Let_def)

lemma Jump_fits_size:
  assumes "\<not> is_pass c" and "ref h = Some (Bid rl rs)"
    and "spec_candidate h c = Some (Bid cl cs)"
  shows "Jump_fits ref ex h c = Inr (PyBool (spec_is_jump ex (spec_jump_size cl cs rl rs)))"
  using assms
  by (auto simp: Jump_fits_def rewritten_candidate jump_size_def spec_is_jump_def
      spec_jump_size_def split: option.splits)

lemma spec_candidate_contract:
  assumes "\<not> is_pass c" and "spec_candidate h c = Some d"
  shows "\<exists>l s. d = Bid l s"
proof (cases "c = Double \<or> c = Redouble")
  case True
  with assms(2) have "last_contract (call_history h) = Some d"
    by (simp add: spec_candidate_def)
  then show ?thesis
    using last_contract_is_contract is_contract_Bid by blast
next
  case False
  with assms show ?thesis
    by (cases c) (auto simp: spec_candidate_def)
qed

text \<open>
  Claim C3. For each Jump precondition, with its reference call: Pass is never a jump; with
  no reference call, or one that is not a contract, the result is false; otherwise, the
  candidate being a contract bid or a Double or Redouble rewritten to the last contract,
  the jump size is the candidate's level minus the reference's level, less one when the
  candidate's strain is less than or equal to the reference's, and the result is whether
  the size is non-zero, or equals the exact size when one is declared. Whenever the call
  history has a contract, or there is no reference call, \<open>fits\<close> returns a boolean.
\<close>

theorem jump_family_fits:
  assumes "jump_reference p = Some ref"
  shows "(is_pass c \<longrightarrow> fits p h c = Inr (PyBool False)) \<and>
         (ref h = None \<or> (\<exists>r. ref h = Some r \<and> \<not> is_contract r) \<longrightarrow>
            fits p h c = Inr (PyBool False)) \<and>
         (\<forall>rl rs cl cs.
            \<not> is_pass c \<and> ref h = Some (Bid rl rs) \<and> spec_candidate h c = Some (Bid cl cs) \<longrightarrow>
            fits p h c =
              Inr (PyBool (spec_is_jump (jump_exact_size p) (spec_jump_size cl cs rl rs)))) \<and>
         (last_contract (call_history h) \<noteq> None \<or> ref h = None \<longrightarrow>
            (\<exists>b. fits p h c = Inr (PyBool b)))"
proof -
  note eq = fits_jump_family [OF assms, of h c]
  have total: "\<exists>b. Jump_fits ref (jump_exact_size p) h c = Inr (PyBool b)"
    if wf: "last_contract (call_history h) \<noteq> None \<or> ref h = None"
  proof (cases "is_pass c")
    case True
    then show ?thesis by (auto simp: Jump_fits_pass)
  next
    case np: False
    show ?thesis
    proof (cases "ref h")
      case None
      then show ?thesis by (auto simp: Jump_fits_no_reference)
    next
      case (Some r)
      show ?thesis
      proof (cases "is_contract r")
        case False
        with Some show ?thesis by (auto simp: Jump_fits_no_reference)
      next
        case True
        then obtain rl rs where r: "r = Bid rl rs"
          using is_contract_Bid by blast
        from wf Some obtain lc where lc: "last_contract (call_history h) = Some lc"
          by auto
        have "\<exists>d. spec_candidate h c = Some d"
          using lc by (simp add: spec_candidate_def)
        then obtain cl cs where "spec_candidate h c = Some (Bid cl cs)"
          using spec_candidate_contract [OF np] by blast
        with np Some r show ?thesis
          by (auto simp: Jump_fits_size)
      qed
    qed
  qed
  show ?thesis
    unfolding eq
    using Jump_fits_pass [of c ref "jump_exact_size p" h]
      Jump_fits_no_reference [of ref h "jump_exact_size p" c]
      Jump_fits_size [of c ref h _ _ _ _ "jump_exact_size p"] total
    by blast
qed

theorem jump_family_fits_witness:
  "jump_reference NotJumpFromLastContract = Some (\<lambda>h. last_contract (call_history h)) \<and>
   fits NotJumpFromLastContract rho_opened_one_club (Bid 1 Diamonds) = Inr (PyBool True) \<and>
   fits NotJumpFromLastContract rho_opened_one_club (Bid 3 Diamonds) = Inr (PyBool False) \<and>
   fits NotJumpFromLastContract rho_opened_one_club Pass = Inr (PyBool False)"
proof -
  have r: "jump_reference NotJumpFromLastContract = Some (\<lambda>h. last_contract (call_history h))"
    by simp
  have h: "last_contract (call_history rho_opened_one_club) = Some (Bid 1 Clubs)"
    by (simp add: rho_opened_one_club_def)
  show ?thesis
    using r h jump_family_fits [OF r, of "Bid 1 Diamonds" rho_opened_one_club]
      jump_family_fits [OF r, of "Bid 3 Diamonds" rho_opened_one_club]
      jump_family_fits [OF r, of Pass rho_opened_one_club]
    by (simp add: spec_candidate_def spec_is_jump_def spec_jump_size_def)
qed

text \<open>
  Claim C9. When the call history contains a contract, a Double is rewritten to the last
  contract and compared against the last contract itself: the jump size is \<open>-1\<close>, so
  \<open>JumpFromLastContract.fits(history, Double)\<close> is true and
  \<open>NotJumpFromLastContract.fits(history, Double)\<close> is false.
\<close>

theorem double_is_jump_from_last_contract:
  assumes "\<exists>d \<in> set (call_history h). is_contract d"
  shows "\<exists>lc. last_contract (call_history h) = Some lc \<and>
              jump_size lc (Some lc) = Inr (- 1) \<and>
              fits (JumpFromLastContract None) h Double = Inr (PyBool True) \<and>
              fits NotJumpFromLastContract h Double = Inr (PyBool False)"
proof -
  from assms obtain lc where lc: "last_contract (call_history h) = Some lc"
    using last_contract_exists by blast
  then obtain l s where b: "lc = Bid l s"
    using last_contract_is_contract is_contract_Bid by blast
  have js: "jump_size lc (Some lc) = Inr (- 1)"
    by (simp add: b jump_size_def)
  show ?thesis
    using lc js b
    by (simp add: Jump_fits_def JumpFromLastContract_last_call_def)
qed

theorem double_is_jump_from_last_contract_witness:
  "(\<exists>d \<in> set (call_history rho_opened_one_club). is_contract d) \<and>
   fits (JumpFromLastContract None) rho_opened_one_club Double = Inr (PyBool True) \<and>
   fits NotJumpFromLastContract rho_opened_one_club Double = Inr (PyBool False)"
proof -
  have e: "\<exists>d \<in> set (call_history rho_opened_one_club). is_contract d"
    by (simp add: rho_opened_one_club_def)
  show ?thesis
    using e double_is_jump_from_last_contract [OF e] by blast
qed

section \<open>Properties of the rules\<close>

subsection \<open>Construction\<close>

text \<open>
  Claim C10. A rule that \<open>__init__\<close> accepts and that has conditional priorities has an empty
  constraints mapping, so no call has a per-call entry or override priority: the per-call
  lookup answers no constraints and the rule's default priority.
\<close>

theorem conditional_priorities_exclude_constraints:
  assumes "Rule_init r = Inr ()" and "conditional_priorities r \<noteq> []"
  shows "constraints r = [] \<and>
         per_call_constraints_and_priority r c = Inr (Some (NoneC, priority r)) \<and>
         declared_override r c = None"
proof -
  from assms have "constraints r = []"
    by (auto simp: Rule_init_def truthy_priority_def split: if_splits)
  then show ?thesis
    by (simp add: per_call_constraints_and_priority_def declared_override_def)
qed

theorem conditional_priorities_exclude_constraints_witness:
  "Rule_init OneClubOpening = Inr () \<and> conditional_priorities OneClubOpening \<noteq> [] \<and>
   constraints OneClubOpening = [] \<and>
   per_call_constraints_and_priority OneClubOpening (Bid 1 Clubs) =
     Inr (Some (NoneC, Some (EnumValue ''opening_priorities'' 7)))"
proof -
  have i: "Rule_init OneClubOpening = Inr ()"
    by (simp add: Rule_init_def truthy_priority_def OneClubOpening_def truthy_call_name_def)
  have n: "conditional_priorities OneClubOpening \<noteq> []"
    by (simp add: OneClubOpening_def)
  have p: "priority OneClubOpening = Some (EnumValue ''opening_priorities'' 7)"
    by (simp add: OneClubOpening_def)
  show ?thesis
    using i n p conditional_priorities_exclude_constraints [OF i n, of "Bid 1 Clubs"]
    by simp
qed

text \<open>
  Claim C5. A rule with no resolvable priority is to be refused at construction. A rule
  with no default priority and a per-call entry that carries no priority passes
  \<open>__init__\<close>; the missing priority shows at query time only: \<open>priority_for_call_and_hand\<close>
  answers no priority although the constraint is satisfiable, and
  \<open>possible_priorities_and_conditions_for_call\<close> fails its assertion.
\<close>

theorem unresolved_priority_not_detected:
  "Rule_init NoDefaultPriority = Inr () \<and>
   priority_for_call_and_hand (\<lambda>s e. True) NoDefaultPriority () empty_auction (Bid 2 Clubs) () 0
     = (Inr None, 1) \<and>
   possible_priorities_and_conditions_for_call NoDefaultPriority (Bid 2 Clubs)
     = Inl (AssertionError [])"
  by (simp add: Rule_init_def truthy_priority_def NoDefaultPriority_def priority_for_call_and_hand_def
      constraints_expr_for_call_def unpack_per_call_def per_call_constraints_and_priority_def
      is_possible_def level_char_def possible_priorities_and_conditions_for_call_def)

subsection \<open>calls_over\<close>







subsection \<open>Constraint expressions\<close>

text \<open>
  Claim C7. \<open>constraints_expr_for_call\<close> is to return the conjunction of the call's per-call
  constraints and the shared constraints, nested lists flattened. For a per-call entry that
  is a list of expressions, \<open>_per_call_constraints_and_priority\<close> ends without a \<open>return\<close>,
  and unpacking its \<open>None\<close> raises \<open>TypeError\<close>, although \<open>_exprs_from_constraints\<close> flattens
  that list.
\<close>

theorem per_call_list_raises:
  "Rule_init PerCallList = Inr () \<and>
   per_call_constraints_and_priority PerCallList (Bid 1 Hearts) = Inr None \<and>
   constraints_expr_for_call PerCallList empty_auction (Bid 1 Hearts) = Inl TypeError \<and>
   exprs_from_constraints
     (Seq [ExprRef (z3_Atom ''hearts >= 5''), ExprRef (z3_Atom ''points >= 6'')])
     empty_auction (Bid 1 Hearts)
     = Inr [z3_Atom ''hearts >= 5'', z3_Atom ''points >= 6'']"
  by (simp add: Rule_init_def truthy_priority_def PerCallList_def
      constraints_expr_for_call_def unpack_per_call_def per_call_constraints_and_priority_def
      level_char_def)

text \<open>
  For every per-call entry the lookup does answer, the result is the conjunction of the
  flattened per-call constraints, left out when falsy, and the flattened shared
  constraints.
\<close>

lemma exprs_from_constraints_flatten:
  "no_priority_inside cd \<Longrightarrow>
     exprs_from_constraints cd h c = Inr (flatten_constraints cd h c)"
  "list_all no_priority_inside cds \<Longrightarrow>
     exprs_from_constraints_list cds h c =
       Inr (concat (map (\<lambda>x. flatten_constraints x h c) cds))"
  by (induction cd h c and cds h c
      rule: exprs_from_constraints_exprs_from_constraints_list.induct) auto

lemma constraints_expr_for_call_conjunction:
  assumes "unpack_per_call r c = Inr (pc, po)"
    and "no_priority_inside pc" and "no_priority_inside (shared_constraints r)"
  shows "constraints_expr_for_call r h c =
           Inr (z3_And ((if truthy_constraints pc then flatten_constraints pc h c else [])
                        @ flatten_constraints (shared_constraints r) h c))"
  using assms by (simp add: constraints_expr_for_call_def exprs_from_constraints_flatten)

subsection \<open>Priorities\<close>

lemma first_possible_find:
  "fst (first_possible is_sat solver cps n) =
     map_option snd (find (\<lambda>(condition, p). is_sat solver condition) cps)"
  by (induction cps arbitrary: n) (auto simp: is_possible_def)

lemma unpack_per_call_override:
  assumes "unpack_per_call r c = Inr (pc, po)"
  shows "(case po of Some p \<Rightarrow> Some p | None \<Rightarrow> priority r) =
         (case declared_override r c of Some p \<Rightarrow> Some p | None \<Rightarrow> priority r)"
  using assms
  apply (auto simp: unpack_per_call_def per_call_constraints_and_priority_def
      declared_override_def
      split: option.splits if_splits constraint_data.splits list.splits sum.splits)
  done

lemma priority_result:
  assumes "constraints_expr_for_call r h c = Inr e"
  shows "fst (priority_for_call_and_hand is_sat r solver h c hand n) =
           Inr (spec_priority is_sat solver r c e)"
proof -
  from assms obtain pc po where up: "unpack_per_call r c = Inr (pc, po)"
    by (auto simp: constraints_expr_for_call_def split: sum.splits)
  note ov = unpack_per_call_override [OF up]
  note ff = first_possible_find [of is_sat solver "conditional_priorities r" "Suc n"]
  show ?thesis
  proof (cases "is_sat solver e")
    case False
    then show ?thesis
      by (simp add: priority_for_call_and_hand_def assms is_possible_def spec_priority_def)
  next
    case True
    show ?thesis
    proof (cases "first_possible is_sat solver (conditional_priorities r) (Suc n)")
      case (Pair fp n2)
      with ff have f: "map_option snd
          (find (\<lambda>(condition, p). is_sat solver condition) (conditional_priorities r)) = fp"
        by simp
      show ?thesis
      proof (cases fp)
        case None
        with f have "find (\<lambda>(condition, p). is_sat solver condition) (conditional_priorities r)
            = None"
          by simp
        with True Pair None up ov show ?thesis
          by (auto simp: priority_for_call_and_hand_def assms is_possible_def
               spec_priority_def split: option.splits)
      next
        case (Some p)
        with f obtain cnd where
          "find (\<lambda>(condition, p). is_sat solver condition) (conditional_priorities r)
            = Some (cnd, p)"
          by auto
        with True Pair Some show ?thesis
          by (simp add: priority_for_call_and_hand_def assms is_possible_def
              spec_priority_def)
      qed
    qed
  qed
qed

text \<open>
  With \<open>e\<close> the full constraint expression of the rule for the call (an exception of
  \<open>constraints_expr_for_call\<close> is passed on): \<open>priority_for_call_and_hand\<close> yields no
  priority when the solver judges \<open>e\<close> unsatisfiable, after that one query; otherwise the
  priority of the first condition of \<open>conditional_priorities\<close>, in declared order, that the
  solver judges satisfiable; otherwise the per-call override priority when the constraints
  mapping declares one, else the rule's default priority.
\<close>

theorem priority_for_call_and_hand_spec:
  "fst (priority_for_call_and_hand is_sat r solver h c hand n) =
     (case constraints_expr_for_call r h c of
        Inl err \<Rightarrow> Inl err
      | Inr e \<Rightarrow> Inr (spec_priority is_sat solver r c e)) \<and>
   (\<forall>e. constraints_expr_for_call r h c = Inr e \<and> \<not> is_sat solver e \<longrightarrow>
      priority_for_call_and_hand is_sat r solver h c hand n = (Inr None, Suc n)) \<and>
   (\<forall>e c0 p0 rest.
      constraints_expr_for_call r h c = Inr e \<and> is_sat solver e \<and>
      conditional_priorities r = (c0, p0) # rest \<and> is_sat solver c0 \<longrightarrow>
      fst (priority_for_call_and_hand is_sat r solver h c hand n) = Inr (Some p0))"
proof -
  have res: "fst (priority_for_call_and_hand is_sat r solver h c hand n) =
     (case constraints_expr_for_call r h c of
        Inl err \<Rightarrow> Inl err
      | Inr e \<Rightarrow> Inr (spec_priority is_sat solver r c e))"
  proof (cases "constraints_expr_for_call r h c")
    case (Inl err)
    then show ?thesis by (simp add: priority_for_call_and_hand_def)
  next
    case (Inr e)
    then show ?thesis by (simp add: priority_result)
  qed
  have unsat: "priority_for_call_and_hand is_sat r solver h c hand n = (Inr None, Suc n)"
    if "constraints_expr_for_call r h c = Inr e" and "\<not> is_sat solver e" for e
    using that by (simp add: priority_for_call_and_hand_def is_possible_def)
  have first: "fst (priority_for_call_and_hand is_sat r solver h c hand n) = Inr (Some p0)"
    if "constraints_expr_for_call r h c = Inr e" and "is_sat solver e"
      and "conditional_priorities r = (c0, p0) # rest" and "is_sat solver c0"
    for e c0 p0 rest
    using that by (simp add: priority_result spec_priority_def)
  from res unsat first show ?thesis by blast
qed

theorem priority_for_call_and_hand_spec_witness:
  "constraints_expr_for_call OneHeartResponse partner_opened_one_club (Bid 1 Hearts) =
     Inr (z3_And [z3_Atom ''points >= 6'', z3_Atom ''hearts >= 4'']) \<and>
   fst (priority_for_call_and_hand (\<lambda>s e. True) OneHeartResponse ()
         partner_opened_one_club (Bid 1 Hearts) () 0) =
     Inr (Some (EnumValue ''response_priorities'' 2)) \<and>
   priority_for_call_and_hand (\<lambda>s e. False) OneHeartResponse ()
         partner_opened_one_club (Bid 1 Hearts) () 0 = (Inr None, 1)"
proof -
  have e: "constraints_expr_for_call OneHeartResponse partner_opened_one_club (Bid 1 Hearts) =
     Inr (z3_And [z3_Atom ''points >= 6'', z3_Atom ''hearts >= 4''])"
    by (simp add: constraints_expr_for_call_def unpack_per_call_def
        per_call_constraints_and_priority_def OneHeartResponse_def)
  have cp: "conditional_priorities OneHeartResponse =
      (z3_And [z3_Atom ''hearts >= 5'', z3_Atom ''hearts > spades''],
          EnumValue ''response_priorities'' 2) #
      [(z3_Atom ''hearts >= 5'', EnumValue ''response_priorities'' 4)]"
    by (simp add: OneHeartResponse_def)
  show ?thesis
    using e cp
      priority_for_call_and_hand_spec [of "\<lambda>s e. True" OneHeartResponse "()"
        partner_opened_one_club "Bid 1 Hearts" "()" 0]
      priority_for_call_and_hand_spec [of "\<lambda>s e. False" OneHeartResponse "()"
        partner_opened_one_club "Bid 1 Hearts" "()" 0]
    by (simp add: spec_priority_def)
qed

text \<open>
  Claim C1. For every rule, history, call and hand, \<open>priority_for_call_and_hand\<close> is to
  yield no priority when the full constraint expression is unsatisfiable, else the
  priority of the first satisfiable condition, else the per-call override, else the
  rule's default priority. For the rule whose per-call entry is a list of expressions,
  which \<open>__init__\<close> accepts, and a solver that finds every expression satisfiable, that is
  the default priority; the function raises \<open>TypeError\<close> before it asks the solver anything.
\<close>

theorem per_call_list_priority_raises:
  "Rule_init PerCallList = Inr () \<and>
   priority PerCallList = Some (EnumValue ''response_priorities'' 4) \<and>
   spec_priority (\<lambda>s e. True) () PerCallList (Bid 1 Hearts)
     (z3_And [z3_Atom ''hearts >= 5'', z3_Atom ''points >= 6'', NO_CONSTRAINTS])
     = Some (EnumValue ''response_priorities'' 4) \<and>
   priority_for_call_and_hand (\<lambda>s e. True) PerCallList () empty_auction (Bid 1 Hearts) () 0
     = (Inl TypeError, 0)"
  by (simp add: Rule_init_def truthy_priority_def PerCallList_def
      priority_for_call_and_hand_def constraints_expr_for_call_def unpack_per_call_def
      per_call_constraints_and_priority_def level_char_def spec_priority_def
      declared_override_def)

subsection \<open>Memoized priorities\<close>


















end
